theory Spec2Isabelle
  imports Main
begin

section \<open>Strings\<close>

text \<open>
  Python's \<open>str.lower()\<close>, on the ASCII range: the letters \<open>A\<close> to \<open>Z\<close> (codes 65 to 90)
  move to \<open>a\<close> to \<open>z\<close>, every other character stays. A \<open>string\<close> is a list of 8-bit
  characters, so characters beyond ASCII are left as they are.
\<close>

definition lower_char :: "char \<Rightarrow> char" where
  "lower_char c =
     (let n = (of_char c :: nat) in if 65 \<le> n \<and> n \<le> 90 then char_of (n + 32) else c)"

definition lower :: "string \<Rightarrow> string" where
  "lower s = map lower_char s"

text \<open>
  Python's \<open>s.split(sep, 1)\<close> for a one-character separator: at most one split, at the
  first occurrence of the separator; a string without the separator comes back alone.
\<close>

definition split1 :: "char \<Rightarrow> string \<Rightarrow> string list" where
  "split1 sep s =
     (if sep \<in> set s
      then [takeWhile (\<lambda>c. c \<noteq> sep) s, tl (dropWhile (\<lambda>c. c \<noteq> sep) s)]
      else [s])"

section \<open>The catalog read by the introspection\<close>

text \<open>
  The rows of the PostgreSQL catalog tables and information-schema views that the
  queries of \<open>postgresql_backend/introspection.py\<close> read. A relation of \<open>pg_class\<close>
  carries the name of its namespace (the join with \<open>pg_namespace\<close> on
  \<open>n.oid = c.relnamespace\<close>).
\<close>

record pg_class_row =
  oid :: nat
  relname :: string
  relkind :: string
  nspname :: string

record pg_index_row =
  indrelid :: nat
  indexrelid :: nat
  indkey :: "nat list"
  indisunique :: bool
  indisprimary :: bool

record pg_attribute_row =
  attrelid :: nat
  attnum :: nat
  attname :: string

record key_column_usage_row =
  kcu_table_schema :: string
  kcu_table_name :: string
  kcu_constraint_name :: string
  kcu_column_name :: string
  kcu_ordinal_position :: nat

record table_constraints_row =
  tc_table_schema :: string
  tc_table_name :: string
  tc_constraint_name :: string
  tc_constraint_type :: string

record constraint_column_usage_row =
  ccu_table_schema :: string
  ccu_table_name :: string
  ccu_column_name :: string
  ccu_constraint_name :: string

record catalog =
  pg_class :: "pg_class_row list"
  pg_index :: "pg_index_row list"
  pg_attribute :: "pg_attribute_row list"
  key_column_usage :: "key_column_usage_row list"
  table_constraints :: "table_constraints_row list"
  constraint_column_usage :: "constraint_column_usage_row list"

record table_info =
  ti_name :: string
  ti_type :: "string option"

record constraint_info =
  columns :: "string option list"
  primary_key :: bool
  unique :: bool
  foreign_key :: "string list option"
  check :: bool
  index :: bool

datatype introspection_error = IndexError

type_synonym constraints = "string \<rightharpoonup> constraint_info"

section \<open>The connection's search path\<close>

text \<open>
  Modelled from the spec: the search path that \<open>set_schema\<close> of
  \<open>postgresql_backend/base.py\<close> (not among the sources) gives the connection: the
  current schema first and the public schema as fallback, or the public schema alone.
\<close>

definition search_path :: "string \<Rightarrow> string \<Rightarrow> string list" where
  "search_path public current = (if current = public then [public] else [current, public])"

text \<open>
  PostgreSQL's \<open>pg_table_is_visible\<close>: a relation is visible when its namespace is the
  first one of the search path that holds a relation of its name.
\<close>

definition pg_table_is_visible :: "string list \<Rightarrow> pg_class_row list \<Rightarrow> pg_class_row \<Rightarrow> bool" where
  "pg_table_is_visible path classes c =
     (case find (\<lambda>s. list_ex (\<lambda>c'. nspname c' = s \<and> relname c' = relname c) classes) path of
        None \<Rightarrow> False
      | Some s \<Rightarrow> s = nspname c)"

section \<open>get\_table\_list\<close>

text \<open>
  The dictionary lookup \<open>{'r': 't', 'v': 'v'}.get(row[1])\<close>.
\<close>

definition table_type :: "string \<Rightarrow> string option" where
  "table_type k = (if k = ''r'' then Some ''t'' else if k = ''v'' then Some ''v'' else None)"

text \<open>
  \<open>get_table_list\<close>: the relations of kind \<open>r\<close>, \<open>v\<close> or the empty string whose
  namespace is \<open>connection.schema_name\<close> and which are visible, without the ignored tables.
\<close>

definition get_table_list :: "string list \<Rightarrow> string \<Rightarrow> string \<Rightarrow> catalog \<Rightarrow> table_info list" where
  "get_table_list ignored_tables public current_schema cat =
     [\<lparr>ti_name = relname c, ti_type = table_type (relkind c)\<rparr>.
        c \<leftarrow> pg_class cat,
        relkind c \<in> {''r'', ''v'', []} \<and> nspname c = current_schema
          \<and> pg_table_is_visible (search_path public current_schema) (pg_class cat) c,
        relname c \<notin> set ignored_tables]"

section \<open>get\_constraints\<close>

text \<open>
  The first query: the key columns of the table in \<open>connection.schema_name\<close>, joined
  with their constraint's type, in the order of \<open>ordinal_position\<close>, each with the array
  of the \<open>table.column\<close> strings that \<open>constraint_column_usage\<close> holds under the
  constraint's name.
\<close>

type_synonym key_row = "string \<times> string \<times> string \<times> string list"

definition used_cols_of :: "catalog \<Rightarrow> string \<Rightarrow> string list" where
  "used_cols_of cat constraint_name =
     [ccu_table_name u @ ''.'' @ ccu_column_name u.
        u \<leftarrow> constraint_column_usage cat, ccu_constraint_name u = constraint_name]"

definition key_query :: "string \<Rightarrow> string \<Rightarrow> catalog \<Rightarrow> key_row list" where
  "key_query current_schema table_name cat =
     map (\<lambda>(kc, c). (kcu_constraint_name kc, kcu_column_name kc, tc_constraint_type c,
                      used_cols_of cat (kcu_constraint_name kc)))
       (sort_key (\<lambda>(kc, c). kcu_ordinal_position kc)
          [(kc, c). kc \<leftarrow> key_column_usage cat, c \<leftarrow> table_constraints cat,
             kcu_table_schema kc = tc_table_schema c \<and> kcu_table_name kc = tc_table_name c
               \<and> kcu_constraint_name kc = tc_constraint_name c
               \<and> kcu_table_schema kc = current_schema \<and> kcu_table_name kc = table_name])"

text \<open>
  The record made for a constraint at its first key column. \<open>used_cols[0]\<close> is read
  only for a foreign key, and raises \<open>IndexError\<close> on an empty array.
\<close>

definition key_record :: "string \<Rightarrow> string list \<Rightarrow> introspection_error + constraint_info" where
  "key_record kind used_cols =
     (if lower kind = ''foreign key''
      then (case used_cols of
              [] \<Rightarrow> Inl IndexError
            | u # _ \<Rightarrow>
                Inr \<lparr>columns = [], primary_key = (lower kind = ''primary key''),
                     unique = (lower kind \<in> {''primary key'', ''unique''}),
                     foreign_key = Some (split1 CHR ''.'' u), check = False, index = False\<rparr>)
      else Inr \<lparr>columns = [], primary_key = (lower kind = ''primary key''),
                unique = (lower kind \<in> {''primary key'', ''unique''}),
                foreign_key = None, check = False, index = False\<rparr>)"

text \<open>\<open>constraints[constraint]['columns'].append(column)\<close> on a recorded constraint.\<close>

definition append_column :: "constraints \<Rightarrow> string \<Rightarrow> string \<Rightarrow> constraints" where
  "append_column cs constraint column =
     (case cs constraint of
        None \<Rightarrow> cs
      | Some ci \<Rightarrow> cs(constraint \<mapsto> ci\<lparr>columns := columns ci @ [Some column]\<rparr>))"

fun key_pass :: "key_row list \<Rightarrow> constraints \<Rightarrow> introspection_error + constraints" where
  "key_pass [] cs = Inr cs"
| "key_pass ((constraint, column, kind, used_cols) # rows) cs =
     (case cs constraint of
        Some ci \<Rightarrow> key_pass rows (append_column cs constraint column)
      | None \<Rightarrow>
          (case key_record kind used_cols of
             Inl e \<Rightarrow> Inl e
           | Inr ci \<Rightarrow> key_pass rows (append_column (cs(constraint \<mapsto> ci)) constraint column)))"

text \<open>The second query: the columns used by the CHECK constraints of the table.\<close>

definition check_query :: "string \<Rightarrow> string \<Rightarrow> catalog \<Rightarrow> (string \<times> string) list" where
  "check_query current_schema table_name cat =
     [(ccu_constraint_name kc, ccu_column_name kc).
        kc \<leftarrow> constraint_column_usage cat, c \<leftarrow> table_constraints cat,
        ccu_table_schema kc = tc_table_schema c \<and> ccu_table_name kc = tc_table_name c
          \<and> ccu_constraint_name kc = tc_constraint_name c
          \<and> tc_constraint_type c = ''CHECK''
          \<and> ccu_table_schema kc = current_schema \<and> ccu_table_name kc = table_name]"

definition check_record :: constraint_info where
  "check_record =
     \<lparr>columns = [], primary_key = False, unique = False, foreign_key = None,
      check = True, index = False\<rparr>"

fun check_pass :: "(string \<times> string) list \<Rightarrow> constraints \<Rightarrow> constraints" where
  "check_pass [] cs = cs"
| "check_pass ((constraint, column) # rows) cs =
     (case cs constraint of
        Some ci \<Rightarrow> check_pass rows (append_column cs constraint column)
      | None \<Rightarrow> check_pass rows (append_column (cs(constraint \<mapsto> check_record)) constraint column))"

text \<open>
  The third query: every index \<open>c2\<close> of every relation \<open>c\<close> named \<open>table_name\<close>, with
  the attribute names of its key array. The scalar subquery on \<open>pg_attribute\<close> is NULL
  (here \<open>None\<close>) where no attribute has the number. The query names no schema.
\<close>

type_synonym index_row = "string \<times> string option list \<times> bool \<times> bool"

definition attname_of :: "catalog \<Rightarrow> nat \<Rightarrow> nat \<Rightarrow> string option" where
  "attname_of cat rel i =
     map_option attname (find (\<lambda>a. attnum a = i \<and> attrelid a = rel) (pg_attribute cat))"

definition index_query :: "string \<Rightarrow> catalog \<Rightarrow> index_row list" where
  "index_query table_name cat =
     [(relname c2, map (attname_of cat (oid c)) (indkey idx), indisunique idx, indisprimary idx).
        c \<leftarrow> pg_class cat, c2 \<leftarrow> pg_class cat, idx \<leftarrow> pg_index cat,
        oid c = indrelid idx \<and> indexrelid idx = oid c2 \<and> relname c = table_name]"

definition index_record :: "string option list \<Rightarrow> bool \<Rightarrow> bool \<Rightarrow> constraint_info" where
  "index_record cols uniq primary =
     \<lparr>columns = cols, primary_key = primary, unique = uniq, foreign_key = None,
      check = False, index = True\<rparr>"

fun index_pass :: "index_row list \<Rightarrow> constraints \<Rightarrow> constraints" where
  "index_pass [] cs = cs"
| "index_pass ((index_name, cols, uniq, primary) # rows) cs =
     (case cs index_name of
        Some ci \<Rightarrow> index_pass rows cs
      | None \<Rightarrow> index_pass rows (cs(index_name \<mapsto> index_record cols uniq primary)))"

text \<open>
  \<open>get_constraints\<close>: the three passes over one dictionary, which starts empty.
  \<open>current_schema\<close> is \<open>self.connection.schema_name\<close>.
\<close>

definition get_constraints :: "string \<Rightarrow> string \<Rightarrow> catalog \<Rightarrow> introspection_error + constraints" where
  "get_constraints current_schema table_name cat =
     (case key_pass (key_query current_schema table_name cat) Map.empty of
        Inl e \<Rightarrow> Inl e
      | Inr cs \<Rightarrow>
          Inr (index_pass (index_query table_name cat)
                 (check_pass (check_query current_schema table_name cat) cs)))"

section \<open>Tenants, domains and the database\<close>

text \<open>
  The exceptions of \<open>models.py\<close> and of the calls it makes. The three \<open>Exception\<close>s
  raised by \<open>Tenant.save\<close> and \<open>Tenant.delete\<close> carry \<open>connection.schema_name\<close>, which
  their messages print: "Can't create tenant outside the public schema", "Can't update
  tenant outside it's own schema or the public schema" and "Can't delete tenant outside
  it's own schema or the public schema".
\<close>

datatype error =
    CantCreateOutsidePublic string
  | CantUpdateOutsideOwn string
  | CantDeleteOutsideOwn string
  | ValidationError
  | ProgrammingError
  | InternalError
  | IntegrityError
  | DataError
  | ValueError
  | AssertionError
  | MultipleObjectsReturned
  | CollaboratorError string

text \<open>The statements that change the database, as the connection executes them.\<close>

datatype statement =
    CREATE_SCHEMA string
  | DROP_SCHEMA_CASCADE string
  | INSERT_TENANT nat
  | UPDATE_TENANT nat
  | DELETE_TENANT nat
  | INSERT_DOMAIN nat
  | UPDATE_DOMAIN nat
  | DELETE_DOMAINS_OF_TENANT nat

text \<open>
  A \<open>Tenant\<close> instance: its primary key (\<open>None\<close> until the row is inserted), the
  fields \<open>schema_name\<close> and \<open>name\<close>, and the two class attributes. The date
  \<open>created_on\<close> plays no part in the operations below and is left out.
\<close>

record tenant =
  pk :: "nat option"
  schema_name :: string
  name :: string
  auto_create_schema :: bool
  auto_drop_schema :: bool

text \<open>
  A \<open>Domain\<close> instance: its primary key, the primary key of its tenant (\<open>None\<close> for a
  tenant that is not saved) and the field \<open>domain\<close>.
\<close>

record domain =
  domain_pk :: "nat option"
  domain_tenant :: "nat option"
  domain_domain :: string

record tenant_row =
  tenant_id :: nat
  tenant_schema_name :: string
  tenant_name :: string

record domain_row =
  domain_id :: nat
  domain_tenant_id :: nat
  domain_name :: string

text \<open>
  The database behind the connection: \<open>connection.schema_name\<close>; the physical schemas,
  under the names PostgreSQL stores; those among them that it refuses to drop (the
  schemas the system requires, such as \<open>pg_catalog\<close>); the schema that holds the table
  of the tenants and the table of the domains (\<open>None\<close> once the tables are dropped), the
  two tables with their primary-key sequences; and the statements executed so far.
\<close>

record database =
  connection_schema_name :: string
  schemas :: "string set"
  undroppable_schemas :: "string set"
  tables_schema :: "string option"
  tenant_table :: "tenant_row list"
  tenant_id_seq :: nat
  domain_table :: "domain_row list"
  domain_id_seq :: nat
  executed :: "statement list"

text \<open>
  What \<open>models.py\<close> imports and calls but does not define: the public schema's name
  (\<open>get_public_schema_name()\<close>), the validator \<open>_check_schema_name\<close> (which raises
  \<open>ValidationError\<close> on a name it rejects), the management command \<open>migrate_schemas\<close>
  and the receivers of the signal \<open>post_schema_sync\<close>. The command and the receivers
  are arbitrary: each may change the database and may raise (the message it returns).
\<close>

record env =
  public_schema_name :: string
  check_schema_name :: "string \<Rightarrow> bool"
  migrate_schemas :: "string \<Rightarrow> nat \<Rightarrow> database \<Rightarrow> string option \<times> database"
  post_schema_sync :: "tenant \<Rightarrow> database \<Rightarrow> string option \<times> database"

text \<open>
  The schema that a statement of \<open>models.py\<close> names when it writes the string into its
  text without quotes (\<open>'CREATE SCHEMA %s'\<close>, \<open>'DROP SCHEMA %s CASCADE'\<close>): PostgreSQL
  folds an unquoted identifier to lowercase.
\<close>

definition physical_schema :: "string \<Rightarrow> string" where
  "physical_schema n = lower n"

text \<open>
  Modelled from the spec: \<open>schema_exists\<close> of \<open>tenant_schemas/utils.py\<close> (not among
  the sources), the existence check of the physical schema that the string names.
\<close>

definition schema_exists :: "string \<Rightarrow> database \<Rightarrow> bool" where
  "schema_exists n db = (physical_schema n \<in> schemas db)"

text \<open>
  Modelled from the spec: \<open>connection.set_schema_to_public\<close> of
  \<open>postgresql_backend/base.py\<close> (not among the sources), the reset of the connection to
  the public schema.
\<close>

definition set_schema_to_public :: "env \<Rightarrow> database \<Rightarrow> database" where
  "set_schema_to_public env db = db\<lparr>connection_schema_name := public_schema_name env\<rparr>"

text \<open>
  \<open>cursor.execute\<close> on \<open>CREATE SCHEMA\<close>: PostgreSQL refuses a schema that exists and a
  name with the prefix \<open>pg_\<close>, which it keeps for the system.
\<close>

definition execute_create_schema :: "string \<Rightarrow> database \<Rightarrow> (error + unit) \<times> database" where
  "execute_create_schema n db =
     (if physical_schema n \<in> schemas db \<or> take 3 (physical_schema n) = ''pg_''
      then (Inl ProgrammingError, db)
      else (Inr (), db\<lparr>schemas := insert (physical_schema n) (schemas db),
                        executed := executed db @ [CREATE_SCHEMA n]\<rparr>))"

text \<open>
  \<open>cursor.execute\<close> on \<open>DROP SCHEMA ... CASCADE\<close>: PostgreSQL refuses a schema that does
  not exist (\<open>ProgrammingError\<close>) and one that the system requires (\<open>InternalError\<close>).
  The drop removes the schema with everything in it: when the schema holds the tables of
  the tenants and of the domains, the tables and their rows are gone.
\<close>

definition execute_drop_schema_cascade :: "string \<Rightarrow> database \<Rightarrow> (error + unit) \<times> database" where
  "execute_drop_schema_cascade n db =
     (if physical_schema n \<notin> schemas db then (Inl ProgrammingError, db)
      else if physical_schema n \<in> undroppable_schemas db then (Inl InternalError, db)
      else if tables_schema db = Some (physical_schema n)
      then (Inr (), db\<lparr>schemas := schemas db - {physical_schema n},
                        tables_schema := None, tenant_table := [], domain_table := [],
                        executed := executed db @ [DROP_SCHEMA_CASCADE n]\<rparr>)
      else (Inr (), db\<lparr>schemas := schemas db - {physical_schema n},
                        executed := executed db @ [DROP_SCHEMA_CASCADE n]\<rparr>))"

subsection \<open>Django's Model.save and Model.delete on the two tables\<close>

text \<open>
  The row of a tenant. The columns have the lengths and the uniqueness that the fields
  declare: \<open>schema_name\<close> at most 63 characters and unique, \<open>name\<close> at most 100.
\<close>

definition row_of_tenant :: "nat \<Rightarrow> tenant \<Rightarrow> tenant_row" where
  "row_of_tenant k t = \<lparr>tenant_id = k, tenant_schema_name = schema_name t, tenant_name = name t\<rparr>"

definition insert_tenant_row :: "nat \<Rightarrow> tenant \<Rightarrow> database \<Rightarrow> (error + unit) \<times> database" where
  "insert_tenant_row k t db =
     (if 63 < length (schema_name t) \<or> 100 < length (name t) then (Inl DataError, db)
      else if list_ex (\<lambda>r. tenant_id r = k \<or> tenant_schema_name r = schema_name t) (tenant_table db)
      then (Inl IntegrityError, db)
      else (Inr (), db\<lparr>tenant_table := tenant_table db @ [row_of_tenant k t],
                        executed := executed db @ [INSERT_TENANT k]\<rparr>))"

definition update_tenant_row :: "nat \<Rightarrow> tenant \<Rightarrow> database \<Rightarrow> (error + unit) \<times> database" where
  "update_tenant_row k t db =
     (if 63 < length (schema_name t) \<or> 100 < length (name t) then (Inl DataError, db)
      else if list_ex (\<lambda>r. tenant_id r \<noteq> k \<and> tenant_schema_name r = schema_name t) (tenant_table db)
      then (Inl IntegrityError, db)
      else (Inr (), db\<lparr>tenant_table :=
                          map (\<lambda>r. if tenant_id r = k then row_of_tenant k t else r) (tenant_table db),
                        executed := executed db @ [UPDATE_TENANT k]\<rparr>))"

text \<open>
  \<open>Model.save\<close> on a tenant. Without the table, the statement is refused
  (\<open>ProgrammingError\<close>). An instance without a primary key is inserted under the next
  value of the sequence (which is used up whether the insert succeeds or not) and takes
  that key; an instance with a key updates its row, or is inserted under its key when
  the table has no such row.
\<close>

definition Model_save_tenant :: "tenant \<Rightarrow> database \<Rightarrow> (error + unit) \<times> tenant \<times> database" where
  "Model_save_tenant self db =
     (if tables_schema db = None then (Inl ProgrammingError, self, db) else
      case pk self of
        None \<Rightarrow>
          (let k = tenant_id_seq db in
           case insert_tenant_row k self (db\<lparr>tenant_id_seq := Suc k\<rparr>) of
             (Inl e, db') \<Rightarrow> (Inl e, self, db')
           | (Inr u, db') \<Rightarrow> (Inr u, self\<lparr>pk := Some k\<rparr>, db'))
      | Some k \<Rightarrow>
          (case (if list_ex (\<lambda>r. tenant_id r = k) (tenant_table db)
                 then update_tenant_row k self db else insert_tenant_row k self db) of
             (r, db') \<Rightarrow> (r, self, db')))"

text \<open>
  \<open>Model.delete\<close> on a tenant: an instance without a primary key cannot be deleted
  (an assertion of Django's); without the tables, the statements are refused
  (\<open>ProgrammingError\<close>); otherwise the rows of its domains go first (the foreign key of
  \<open>Domain\<close> cascades), then its own row, and the instance loses its key.
\<close>

definition Model_delete_tenant :: "tenant \<Rightarrow> database \<Rightarrow> (error + unit) \<times> tenant \<times> database" where
  "Model_delete_tenant self db =
     (case pk self of
        None \<Rightarrow> (Inl AssertionError, self, db)
      | Some k \<Rightarrow>
          if tables_schema db = None then (Inl ProgrammingError, self, db) else
          (Inr (), self\<lparr>pk := None\<rparr>,
           db\<lparr>domain_table := filter (\<lambda>r. domain_tenant_id r \<noteq> k) (domain_table db),
              tenant_table := filter (\<lambda>r. tenant_id r \<noteq> k) (tenant_table db),
              executed := executed db @ [DELETE_DOMAINS_OF_TENANT k, DELETE_TENANT k]\<rparr>))"

text \<open>
  \<open>Model.save\<close> on a domain. Django refuses to save an instance whose tenant is not
  saved (\<open>ValueError\<close>); without the table, the statement is refused
  (\<open>ProgrammingError\<close>); the column \<open>domain\<close> holds at most 128 characters and is unique.
\<close>

definition insert_domain_row :: "nat \<Rightarrow> nat \<Rightarrow> string \<Rightarrow> database \<Rightarrow> (error + unit) \<times> database" where
  "insert_domain_row k t d db =
     (if 128 < length d then (Inl DataError, db)
      else if list_ex (\<lambda>r. domain_id r = k \<or> domain_name r = d) (domain_table db)
      then (Inl IntegrityError, db)
      else (Inr (), db\<lparr>domain_table := domain_table db
                          @ [\<lparr>domain_id = k, domain_tenant_id = t, domain_name = d\<rparr>],
                        executed := executed db @ [INSERT_DOMAIN k]\<rparr>))"

definition update_domain_row :: "nat \<Rightarrow> nat \<Rightarrow> string \<Rightarrow> database \<Rightarrow> (error + unit) \<times> database" where
  "update_domain_row k t d db =
     (if 128 < length d then (Inl DataError, db)
      else if list_ex (\<lambda>r. domain_id r \<noteq> k \<and> domain_name r = d) (domain_table db)
      then (Inl IntegrityError, db)
      else (Inr (), db\<lparr>domain_table :=
                          map (\<lambda>r. if domain_id r = k
                                    then \<lparr>domain_id = k, domain_tenant_id = t, domain_name = d\<rparr> else r)
                            (domain_table db),
                        executed := executed db @ [UPDATE_DOMAIN k]\<rparr>))"

definition Model_save_domain :: "domain \<Rightarrow> database \<Rightarrow> (error + unit) \<times> domain \<times> database" where
  "Model_save_domain self db =
     (case domain_tenant self of
        None \<Rightarrow> (Inl ValueError, self, db)
      | Some t \<Rightarrow>
          if tables_schema db = None then (Inl ProgrammingError, self, db) else
          (case domain_pk self of
             None \<Rightarrow>
               (let k = domain_id_seq db in
                case insert_domain_row k t (domain_domain self) (db\<lparr>domain_id_seq := Suc k\<rparr>) of
                  (Inl e, db') \<Rightarrow> (Inl e, self, db')
                | (Inr u, db') \<Rightarrow> (Inr u, self\<lparr>domain_pk := Some k\<rparr>, db'))
           | Some k \<Rightarrow>
               (case (if list_ex (\<lambda>r. domain_id r = k) (domain_table db)
                      then update_domain_row k t (domain_domain self) db
                      else insert_domain_row k t (domain_domain self) db) of
                  (r, db') \<Rightarrow> (r, self, db'))))"

section \<open>Domain\<close>

text \<open>\<open>Domain.save\<close>: the field is lowered on the instance, then the row is written.\<close>

definition Domain_save :: "domain \<Rightarrow> database \<Rightarrow> (error + unit) \<times> domain \<times> database" where
  "Domain_save self db = Model_save_domain (self\<lparr>domain_domain := lower (domain_domain self)\<rparr>) db"

section \<open>Tenant\<close>

text \<open>
  \<open>get_domains\<close>: the domains of the rows that refer to this tenant. Without the
  table, the query is refused.
\<close>

definition get_domains :: "tenant \<Rightarrow> database \<Rightarrow> error + string list" where
  "get_domains self db =
     (if tables_schema db = None then Inl ProgrammingError
      else Inr [domain_name r. r \<leftarrow> domain_table db, Some (domain_tenant_id r) = pk self])"

text \<open>
  Django's \<open>Domain.objects.get_or_create(tenant=self, domain=domain)\<close>: without the
  table, the query is refused; otherwise the one row with this tenant and this domain
  when there is one (\<open>MultipleObjectsReturned\<close> when there are several), or else a new
  instance, saved with \<open>Domain.save\<close>.
\<close>

definition domain_of_row :: "domain_row \<Rightarrow> domain" where
  "domain_of_row r =
     \<lparr>domain_pk = Some (domain_id r), domain_tenant = Some (domain_tenant_id r),
      domain_domain = domain_name r\<rparr>"

definition get_or_create :: "tenant \<Rightarrow> string \<Rightarrow> database \<Rightarrow> (error + domain \<times> bool) \<times> database" where
  "get_or_create self d db =
     (if tables_schema db = None then (Inl ProgrammingError, db) else
      case [r \<leftarrow> domain_table db. Some (domain_tenant_id r) = pk self \<and> domain_name r = d] of
        [r] \<Rightarrow> (Inr (domain_of_row r, False), db)
      | _ # _ # _ \<Rightarrow> (Inl MultipleObjectsReturned, db)
      | [] \<Rightarrow>
          (case Domain_save \<lparr>domain_pk = None, domain_tenant = pk self, domain_domain = d\<rparr> db of
             (Inl e, obj, db') \<Rightarrow> (Inl e, db')
           | (Inr u, obj, db') \<Rightarrow> (Inr (obj, True), db')))"

definition add_domain :: "tenant \<Rightarrow> string \<Rightarrow> database \<Rightarrow> (error + domain) \<times> database" where
  "add_domain self domain0 db =
     (let d = lower domain0 in
      case get_or_create self d db of
        (Inl e, db') \<Rightarrow> (Inl e, db')
      | (Inr (obj, created), db') \<Rightarrow> (Inr obj, db'))"

text \<open>
  \<open>create_schema\<close>. The result is Python's: \<open>Some False\<close> is \<open>False\<close>, and \<open>None\<close> is
  the \<open>None\<close> of a call that reaches the end of the body.
\<close>

definition create_schema ::
  "env \<Rightarrow> tenant \<Rightarrow> bool \<Rightarrow> bool \<Rightarrow> nat \<Rightarrow> database \<Rightarrow> (error + bool option) \<times> database" where
  "create_schema env self check_if_exists sync_schema verbosity db =
     (if \<not> check_schema_name env (schema_name self) then (Inl ValidationError, db)
      else if check_if_exists \<and> schema_exists (schema_name self) db then (Inr (Some False), db)
      else
        (case execute_create_schema (schema_name self) db of
           (Inl e, db1) \<Rightarrow> (Inl e, db1)
         | (Inr u, db1) \<Rightarrow>
             (case (if sync_schema then migrate_schemas env (schema_name self) verbosity db1
                    else (None, db1)) of
                (Some msg, db2) \<Rightarrow> (Inl (CollaboratorError msg), db2)
              | (None, db2) \<Rightarrow> (Inr None, set_schema_to_public env db2))))"

text \<open>\<open>Tenant.delete\<close>.\<close>

definition Tenant_delete :: "env \<Rightarrow> tenant \<Rightarrow> bool \<Rightarrow> database \<Rightarrow> (error + unit) \<times> tenant \<times> database" where
  "Tenant_delete env self force_drop db =
     (if connection_schema_name db \<notin> {schema_name self, public_schema_name env}
      then (Inl (CantDeleteOutsideOwn (connection_schema_name db)), self, db)
      else
        (case (if schema_exists (schema_name self) db \<and> (auto_drop_schema self \<or> force_drop)
               then execute_drop_schema_cascade (schema_name self) db else (Inr (), db)) of
           (Inl e, db1) \<Rightarrow> (Inl e, self, db1)
         | (Inr u, db1) \<Rightarrow> Model_delete_tenant self db1))"

text \<open>
  The body of the \<open>try\<close> block of \<open>Tenant.save\<close>: \<open>create_schema\<close> with
  \<open>check_if_exists=True\<close> (and \<open>sync_schema\<close> at its default, true), then the signal.
\<close>

definition create_and_send :: "env \<Rightarrow> tenant \<Rightarrow> nat \<Rightarrow> database \<Rightarrow> error option \<times> database" where
  "create_and_send env self verbosity db =
     (case create_schema env self True True verbosity db of
        (Inl e, db1) \<Rightarrow> (Some e, db1)
      | (Inr r, db1) \<Rightarrow>
          (case post_schema_sync env self db1 of
             (Some msg, db2) \<Rightarrow> (Some (CollaboratorError msg), db2)
           | (None, db2) \<Rightarrow> (None, db2)))"

text \<open>
  \<open>Tenant.save\<close>. In the \<open>except\<close> block, an exception of \<open>self.delete\<close> takes the
  place of the one being handled; otherwise the bare \<open>raise\<close> raises that one again.
\<close>

definition Tenant_save :: "env \<Rightarrow> tenant \<Rightarrow> nat \<Rightarrow> database \<Rightarrow> (error + unit) \<times> tenant \<times> database" where
  "Tenant_save env self verbosity db =
     (let is_new = (pk self = None) in
      if is_new \<and> connection_schema_name db \<noteq> public_schema_name env
      then (Inl (CantCreateOutsidePublic (connection_schema_name db)), self, db)
      else if \<not> is_new \<and> connection_schema_name db \<notin> {schema_name self, public_schema_name env}
      then (Inl (CantUpdateOutsideOwn (connection_schema_name db)), self, db)
      else
        (case Model_save_tenant self db of
           (Inl e, self1, db1) \<Rightarrow> (Inl e, self1, db1)
         | (Inr u, self1, db1) \<Rightarrow>
             if is_new \<and> auto_create_schema self1
             then (case create_and_send env self1 verbosity db1 of
                     (None, db2) \<Rightarrow> (Inr (), self1, db2)
                   | (Some e, db2) \<Rightarrow>
                       (case Tenant_delete env self1 True db2 of
                          (Inl e', self3, db3) \<Rightarrow> (Inl e', self3, db3)
                        | (Inr u', self3, db3) \<Rightarrow> (Inl e, self3, db3)))
             else (Inr (), self1, db1)))"


section \<open>Notions used to state the properties\<close>



section \<open>Concrete inputs\<close>

text \<open>
  A fresh database on the public schema, and the same database with the schema and the
  row of the tenant \<open>acme\<close>, seen from the public schema and from the tenant's own.
\<close>

definition public_db :: database where
  "public_db =
     \<lparr>connection_schema_name = ''public'', schemas = {''public'', ''pg_catalog''},
      undroppable_schemas = {''pg_catalog''}, tables_schema = Some ''public'',
      tenant_table = [], tenant_id_seq = 1, domain_table = [], domain_id_seq = 1,
      executed = []\<rparr>"

definition acme_db :: database where
  "acme_db =
     \<lparr>connection_schema_name = ''public'', schemas = {''acme'', ''public'', ''pg_catalog''},
      undroppable_schemas = {''pg_catalog''}, tables_schema = Some ''public'',
      tenant_table = [\<lparr>tenant_id = 1, tenant_schema_name = ''acme'', tenant_name = ''Acme''\<rparr>],
      tenant_id_seq = 2, domain_table = [], domain_id_seq = 1, executed = []\<rparr>"

definition acme_db_own :: database where
  "acme_db_own = acme_db\<lparr>connection_schema_name := ''acme''\<rparr>"

text \<open>
  Two environments. In both, the migration command switches the connection to the
  schema it migrates, as a command scoped to that schema does; in the first it then
  succeeds, in the second it fails.
\<close>

definition working_env :: env where
  "working_env =
     \<lparr>public_schema_name = ''public'', check_schema_name = (\<lambda>n. n \<noteq> []),
      migrate_schemas = (\<lambda>n v db. (None, db\<lparr>connection_schema_name := n\<rparr>)),
      post_schema_sync = (\<lambda>t db. (None, db))\<rparr>"

definition failing_env :: env where
  "failing_env =
     \<lparr>public_schema_name = ''public'', check_schema_name = (\<lambda>n. n \<noteq> []),
      migrate_schemas = (\<lambda>n v db. (Some ''migration failed'', db\<lparr>connection_schema_name := n\<rparr>)),
      post_schema_sync = (\<lambda>t db. (None, db))\<rparr>"

definition acme :: tenant where
  "acme =
     \<lparr>pk = None, schema_name = ''acme'', name = ''Acme'', auto_create_schema = True,
      auto_drop_schema = False\<rparr>"

definition acme_saved :: tenant where
  "acme_saved = acme\<lparr>pk := Some 1\<rparr>"

text \<open>
  The tenant of the public schema (the one \<open>get_public\<close> returns), saved, in a database
  that holds its row, and an environment whose validator rejects the public schema's
  name, as a reserved one.
\<close>

definition public_tenant :: tenant where
  "public_tenant =
     \<lparr>pk = Some 1, schema_name = ''public'', name = ''Public'', auto_create_schema = True,
      auto_drop_schema = False\<rparr>"

definition public_tenant_db :: database where
  "public_tenant_db =
     public_db
       \<lparr>tenant_table := [\<lparr>tenant_id = 1, tenant_schema_name = ''public'',
                           tenant_name = ''Public''\<rparr>],
        tenant_id_seq := 2\<rparr>"

definition strict_env :: env where
  "strict_env = working_env\<lparr>check_schema_name := (\<lambda>n. n \<noteq> [] \<and> n \<noteq> ''public'')\<rparr>"

section \<open>Notions used to state the properties of the introspection\<close>

text \<open>The entry of a constraint name in the result of \<open>get_constraints\<close>.\<close>

definition constraint_of :: "introspection_error + constraints \<Rightarrow> string \<Rightarrow> constraint_info option" where
  "constraint_of result n = (case result of Inl e \<Rightarrow> None | Inr cs \<Rightarrow> cs n)"

text \<open>
  The dictionary of \<open>get_constraints\<close> after its first two loops, before the loop over
  the indexes.
\<close>

definition constraints_before_indexes ::
  "string \<Rightarrow> string \<Rightarrow> catalog \<Rightarrow> introspection_error + constraints" where
  "constraints_before_indexes current_schema table_name cat =
     (case key_pass (key_query current_schema table_name cat) Map.empty of
        Inl e \<Rightarrow> Inl e
      | Inr cs \<Rightarrow> Inr (check_pass (check_query current_schema table_name cat) cs))"

text \<open>Two entries that differ in their columns at most.\<close>

definition same_flags :: "constraint_info \<Rightarrow> constraint_info \<Rightarrow> bool" where
  "same_flags a b =
     (primary_key a = primary_key b \<and> unique a = unique b \<and> foreign_key a = foreign_key b
      \<and> check a = check b \<and> index a = index b)"

text \<open>
  The part of a catalog that belongs to one schema: its relations, the indexes and
  the attributes of its relations, and the rows of the information-schema views that
  name it as their table's schema.
\<close>

definition relation_in_schema :: "string \<Rightarrow> catalog \<Rightarrow> nat \<Rightarrow> bool" where
  "relation_in_schema s cat rel = list_ex (\<lambda>c. oid c = rel \<and> nspname c = s) (pg_class cat)"

definition in_schema :: "string \<Rightarrow> catalog \<Rightarrow> catalog" where
  "in_schema s cat =
     \<lparr>pg_class = [c \<leftarrow> pg_class cat. nspname c = s],
      pg_index = [i \<leftarrow> pg_index cat. relation_in_schema s cat (indrelid i)],
      pg_attribute = [a \<leftarrow> pg_attribute cat. relation_in_schema s cat (attrelid a)],
      key_column_usage = [k \<leftarrow> key_column_usage cat. kcu_table_schema k = s],
      table_constraints = [c \<leftarrow> table_constraints cat. tc_table_schema c = s],
      constraint_column_usage = [u \<leftarrow> constraint_column_usage cat. ccu_table_schema u = s]\<rparr>"

section \<open>Concrete catalogs\<close>

text \<open>
  Schema \<open>a\<close> with one table \<open>t\<close>: a primary key \<open>t_pkey\<close> on \<open>id\<close>, backed by the
  index of the same name, and a plain index \<open>t_name_idx\<close> on \<open>name\<close>.
\<close>

definition pkey_catalog :: catalog where
  "pkey_catalog =
     \<lparr>pg_class =
        [\<lparr>oid = 1, relname = ''t'', relkind = ''r'', nspname = ''a''\<rparr>,
         \<lparr>oid = 2, relname = ''t_pkey'', relkind = ''i'', nspname = ''a''\<rparr>,
         \<lparr>oid = 3, relname = ''t_name_idx'', relkind = ''i'', nspname = ''a''\<rparr>],
      pg_index =
        [\<lparr>indrelid = 1, indexrelid = 2, indkey = [1], indisunique = True, indisprimary = True\<rparr>,
         \<lparr>indrelid = 1, indexrelid = 3, indkey = [2], indisunique = False, indisprimary = False\<rparr>],
      pg_attribute =
        [\<lparr>attrelid = 1, attnum = 1, attname = ''id''\<rparr>,
         \<lparr>attrelid = 1, attnum = 2, attname = ''name''\<rparr>],
      key_column_usage =
        [\<lparr>kcu_table_schema = ''a'', kcu_table_name = ''t'', kcu_constraint_name = ''t_pkey'',
          kcu_column_name = ''id'', kcu_ordinal_position = 1\<rparr>],
      table_constraints =
        [\<lparr>tc_table_schema = ''a'', tc_table_name = ''t'', tc_constraint_name = ''t_pkey'',
          tc_constraint_type = ''PRIMARY KEY''\<rparr>],
      constraint_column_usage =
        [\<lparr>ccu_table_schema = ''a'', ccu_table_name = ''t'', ccu_column_name = ''id'',
          ccu_constraint_name = ''t_pkey''\<rparr>]\<rparr>"

text \<open>
  The same catalog with a second schema \<open>b\<close>, which has a table \<open>t\<close> of its own with an
  index \<open>t_b_idx\<close> on its column \<open>secret\<close>.
\<close>

definition two_schema_catalog :: catalog where
  "two_schema_catalog =
     pkey_catalog
       \<lparr>pg_class := pg_class pkey_catalog @
          [\<lparr>oid = 11, relname = ''t'', relkind = ''r'', nspname = ''b''\<rparr>,
           \<lparr>oid = 12, relname = ''t_b_idx'', relkind = ''i'', nspname = ''b''\<rparr>],
        pg_index := pg_index pkey_catalog @
          [\<lparr>indrelid = 11, indexrelid = 12, indkey = [1], indisunique = False, indisprimary = False\<rparr>],
        pg_attribute := pg_attribute pkey_catalog @
          [\<lparr>attrelid = 11, attnum = 1, attname = ''secret''\<rparr>]\<rparr>"



section \<open>Tenant.delete\<close>

lemma physical_acme: "physical_schema ''acme'' = ''acme''"
  unfolding physical_schema_def by code_simp

lemma physical_public: "physical_schema ''public'' = ''public''"
  unfolding physical_schema_def by code_simp

text \<open>
  The delete that goes through: from an allowed context, with the tables in a schema
  other than the tenant's, and no refusal of the database to drop the tenant's schema.
\<close>

lemma Tenant_delete_allowed:
  assumes ctx: "connection_schema_name db = schema_name self
                \<or> connection_schema_name db = public_schema_name env"
      and saved: "pk self = Some k"
      and tables: "tables_schema db = Some ts" "ts \<noteq> physical_schema (schema_name self)"
      and free: "physical_schema (schema_name self) \<notin> undroppable_schemas db"
  shows "\<exists>db'. Tenant_delete env self force_drop db = (Inr (), self\<lparr>pk := None\<rparr>, db')
           \<and> \<not> list_ex (\<lambda>r. tenant_id r = k) (tenant_table db')
           \<and> connection_schema_name db' = connection_schema_name db
           \<and> (if schema_exists (schema_name self) db \<and> (auto_drop_schema self \<or> force_drop)
               then executed db' = executed db @ [DROP_SCHEMA_CASCADE (schema_name self),
                                                   DELETE_DOMAINS_OF_TENANT k, DELETE_TENANT k]
                    \<and> schemas db' = schemas db - {physical_schema (schema_name self)}
               else executed db' = executed db @ [DELETE_DOMAINS_OF_TENANT k, DELETE_TENANT k]
                    \<and> schemas db' = schemas db)"
  using assms
  by (auto simp: Tenant_delete_def Model_delete_tenant_def execute_drop_schema_cascade_def
        schema_exists_def list_ex_iff)

lemma Tenant_delete_refused:
  assumes "connection_schema_name db \<noteq> schema_name self"
      and "connection_schema_name db \<noteq> public_schema_name env"
  shows "Tenant_delete env self force_drop db
           = (Inl (CantDeleteOutsideOwn (connection_schema_name db)), self, db)"
  using assms by (simp add: Tenant_delete_def)

text \<open>
  C5. A delete of a saved tenant from its own schema or from the public schema, on a
  database that has the tenant table. When the physical schema exists and
  \<open>auto_drop_schema\<close> or the force flag is set, the cascading drop is the first
  statement. If the database refuses it, the delete raises and nothing has changed. If
  the schema dropped is the one that holds the tenant table, the table is gone with it
  and the delete of the row raises. Otherwise the rows are deleted after the drop, and
  the schema is gone. In every other case (in particular without the two flags) no
  schema is dropped, and the rows are deleted.
\<close>

theorem Tenant_delete_outcomes:
  assumes ctx: "connection_schema_name db = schema_name self
                \<or> connection_schema_name db = public_schema_name env"
      and saved: "pk self = Some k"
      and tables: "tables_schema db = Some ts"
  shows "if schema_exists (schema_name self) db \<and> (auto_drop_schema self \<or> force_drop)
         then (if physical_schema (schema_name self) \<in> undroppable_schemas db
               then Tenant_delete env self force_drop db = (Inl InternalError, self, db)
               else if ts = physical_schema (schema_name self)
               then (\<exists>db'. Tenant_delete env self force_drop db = (Inl ProgrammingError, self, db')
                      \<and> executed db' = executed db @ [DROP_SCHEMA_CASCADE (schema_name self)]
                      \<and> physical_schema (schema_name self) \<notin> schemas db'
                      \<and> tables_schema db' = None)
               else (\<exists>db'. Tenant_delete env self force_drop db = (Inr (), self\<lparr>pk := None\<rparr>, db')
                      \<and> executed db' = executed db @ [DROP_SCHEMA_CASCADE (schema_name self),
                                                        DELETE_DOMAINS_OF_TENANT k, DELETE_TENANT k]
                      \<and> physical_schema (schema_name self) \<notin> schemas db'
                      \<and> \<not> list_ex (\<lambda>r. tenant_id r = k) (tenant_table db')))
         else (\<exists>db'. Tenant_delete env self force_drop db = (Inr (), self\<lparr>pk := None\<rparr>, db')
                \<and> executed db' = executed db @ [DELETE_DOMAINS_OF_TENANT k, DELETE_TENANT k]
                \<and> schemas db' = schemas db
                \<and> \<not> list_ex (\<lambda>r. tenant_id r = k) (tenant_table db'))"
proof (cases "schema_exists (schema_name self) db \<and> (auto_drop_schema self \<or> force_drop)")
  case False
  then show ?thesis using assms
    by (auto simp: Tenant_delete_def Model_delete_tenant_def list_ex_iff)
next
  case True
  note drop = this
  show ?thesis
  proof (cases "physical_schema (schema_name self) \<in> undroppable_schemas db")
    case True
    with drop ctx show ?thesis
      by (auto simp: Tenant_delete_def execute_drop_schema_cascade_def schema_exists_def)
  next
    case False
    note free = this
    show ?thesis
    proof (cases "ts = physical_schema (schema_name self)")
      case True
      with drop free ctx saved tables show ?thesis
        by (auto simp: Tenant_delete_def Model_delete_tenant_def execute_drop_schema_cascade_def
              schema_exists_def)
    next
      case False
      with drop free ctx saved tables show ?thesis
        by (auto simp: Tenant_delete_def Model_delete_tenant_def execute_drop_schema_cascade_def
              schema_exists_def list_ex_iff)
    qed
  qed
qed

theorem Tenant_delete_outcomes_witness:
  "\<exists>db'. Tenant_delete working_env acme_saved True acme_db = (Inr (), acme, db')
     \<and> executed db' = [DROP_SCHEMA_CASCADE ''acme'', DELETE_DOMAINS_OF_TENANT 1, DELETE_TENANT 1]
     \<and> ''acme'' \<notin> schemas db'
     \<and> \<not> list_ex (\<lambda>r. tenant_id r = 1) (tenant_table db')"
proof -
  have ctx: "connection_schema_name acme_db = schema_name acme_saved
             \<or> connection_schema_name acme_db = public_schema_name working_env"
    by (simp add: acme_db_def working_env_def)
  have saved: "pk acme_saved = Some 1"
    by (simp add: acme_saved_def)
  have tables: "tables_schema acme_db = Some ''public''"
    by (simp add: acme_db_def)
  have nm: "schema_name acme_saved = ''acme''" and log: "executed acme_db = []"
    and un: "acme_saved\<lparr>pk := None\<rparr> = acme"
    by (simp_all add: acme_saved_def acme_def acme_db_def)
  have ex: "schema_exists ''acme'' acme_db" and free: "''acme'' \<notin> undroppable_schemas acme_db"
    by (simp_all add: schema_exists_def physical_acme acme_db_def)
  from Tenant_delete_outcomes [OF ctx saved tables, of True] ex free nm log un
  show ?thesis by (simp add: physical_acme)
qed

text \<open>
  The delete of the public schema's tenant with the force flag: the drop of the public
  schema goes through, the tables of the tenants and the domains go with it, and the
  delete of the row raises.
\<close>

theorem Tenant_delete_public_tenant_counterexample:
  "fst (Tenant_delete working_env public_tenant True public_tenant_db) = Inl ProgrammingError
   \<and> executed (snd (snd (Tenant_delete working_env public_tenant True public_tenant_db)))
       = [DROP_SCHEMA_CASCADE ''public'']
   \<and> tables_schema (snd (snd (Tenant_delete working_env public_tenant True public_tenant_db)))
       = None"
  by (simp add: Tenant_delete_def Model_delete_tenant_def execute_drop_schema_cascade_def
        schema_exists_def physical_public public_tenant_def public_tenant_db_def public_db_def
        working_env_def)

text \<open>
  The delete of the tenant \<open>acme\<close> without the two flags leaves its schema in place.
\<close>

lemma Tenant_delete_keeps_schema_example:
  "fst (Tenant_delete working_env acme_saved False acme_db) = Inr ()
   \<and> schemas (snd (snd (Tenant_delete working_env acme_saved False acme_db)))
       = {''acme'', ''public'', ''pg_catalog''}
   \<and> tenant_table (snd (snd (Tenant_delete working_env acme_saved False acme_db))) = []"
  by (simp add: Tenant_delete_def Model_delete_tenant_def schema_exists_def physical_acme
        acme_saved_def acme_def acme_db_def working_env_def)

section \<open>create\_schema\<close>

lemma create_schema_short_circuit:
  assumes "check_schema_name env (schema_name self)"
      and "check_if_exists" and "schema_exists (schema_name self) db"
  shows "create_schema env self check_if_exists sync_schema verbosity db = (Inr (Some False), db)"
  using assms by (simp add: create_schema_def)

lemma create_schema_never_True:
  "fst (create_schema env self check_if_exists sync_schema verbosity db) \<noteq> Inr (Some True)"
  by (auto simp: create_schema_def execute_create_schema_def
      split: if_splits prod.splits option.splits sum.splits)

lemma create_schema_migration_failure:
  assumes "check_schema_name env (schema_name self)"
      and "physical_schema (schema_name self) \<notin> schemas db"
      and "take 3 (physical_schema (schema_name self)) \<noteq> ''pg_''"
      and "migrate_schemas env (schema_name self) verbosity
             (db\<lparr>schemas := insert (physical_schema (schema_name self)) (schemas db),
                 executed := executed db @ [CREATE_SCHEMA (schema_name self)]\<rparr>) = (Some msg, db')"
  shows "create_schema env self check_if_exists True verbosity db = (Inl (CollaboratorError msg), db')"
  using assms by (simp add: create_schema_def execute_create_schema_def schema_exists_def)

text \<open>
  C2. Every exit of \<open>create_schema\<close> is one of five. The connection is reset to the
  public schema on one of them only: the end of the body, reached after CREATE SCHEMA
  (and the migration, when asked for) went through. A rejected name, the short circuit
  on an existing schema and a refused CREATE SCHEMA leave the database, and with it the
  connection's schema, as they found it. A failed migration propagates its error, and
  the database is the one the migration command left.
\<close>

theorem create_schema_exits:
  assumes "create_schema env self check_if_exists sync_schema verbosity db = (r, db')"
  shows "(r = Inl ValidationError \<and> db' = db)
       \<or> (r = Inr (Some False) \<and> db' = db)
       \<or> (r = Inl ProgrammingError \<and> db' = db)
       \<or> (\<exists>msg. r = Inl (CollaboratorError msg) \<and> sync_schema
             \<and> migrate_schemas env (schema_name self) verbosity
                  (db\<lparr>schemas := insert (physical_schema (schema_name self)) (schemas db),
                      executed := executed db @ [CREATE_SCHEMA (schema_name self)]\<rparr>) = (Some msg, db'))
       \<or> (r = Inr None \<and> connection_schema_name db' = public_schema_name env)"
  using assms
  by (auto simp: create_schema_def execute_create_schema_def set_schema_to_public_def
      split: if_splits prod.splits option.splits sum.splits)

theorem create_schema_exits_witness:
  "\<exists>db'. create_schema working_env acme False True 1 public_db = (Inr None, db')
     \<and> connection_schema_name db' = public_schema_name working_env"
proof -
  have run: "create_schema working_env acme False True 1 public_db
               = (Inr None, snd (create_schema working_env acme False True 1 public_db))"
    by (simp add: create_schema_def execute_create_schema_def schema_exists_def physical_acme
          working_env_def acme_def public_db_def)
  from create_schema_exits [OF run] run show ?thesis by auto
qed

theorem create_schema_short_circuit_counterexample:
  "create_schema working_env acme_saved True True 1 acme_db_own = (Inr (Some False), acme_db_own)
   \<and> connection_schema_name acme_db_own \<noteq> public_schema_name working_env"
  by (simp add: create_schema_def schema_exists_def physical_acme working_env_def acme_saved_def
        acme_def acme_db_own_def acme_db_def)

text \<open>
  On the path of a failing migration too, the connection is not reset: with the
  migration command that switches to the tenant's schema and fails, \<open>create_schema\<close>
  called on the public schema raises on the tenant's schema.
\<close>

lemma create_schema_failing_migration_example:
  "fst (create_schema failing_env acme False True 1 public_db)
     = Inl (CollaboratorError ''migration failed'')
   \<and> connection_schema_name (snd (create_schema failing_env acme False True 1 public_db)) = ''acme''"
  by (simp add: create_schema_def execute_create_schema_def schema_exists_def physical_acme
        failing_env_def acme_def public_db_def)

text \<open>
  C4. The docstring of \<open>create_schema\<close> promises true when the schema was created.
  On a database without the schema, with no existence check and no migration, the call
  creates the schema and returns \<open>None\<close>.
\<close>

theorem create_schema_created_returns_None:
  "fst (create_schema working_env acme False False 1 public_db) = Inr None
   \<and> ''acme'' \<notin> schemas public_db
   \<and> ''acme'' \<in> schemas (snd (create_schema working_env acme False False 1 public_db))
   \<and> executed (snd (create_schema working_env acme False False 1 public_db))
       = [CREATE_SCHEMA ''acme'']"
  by (simp add: create_schema_def execute_create_schema_def schema_exists_def physical_acme
        set_schema_to_public_def working_env_def acme_def public_db_def)

section \<open>Tenant.save\<close>

lemma Model_save_tenant_new:
  assumes "pk self = None" and "Model_save_tenant self db = (Inr u, self1, db1)"
  shows "self1 = self\<lparr>pk := Some (tenant_id_seq db)\<rparr>
       \<and> tenant_table db1 = tenant_table db @ [row_of_tenant (tenant_id_seq db) self]
       \<and> connection_schema_name db1 = connection_schema_name db
       \<and> schemas db1 = schemas db"
  using assms
  by (auto simp: Model_save_tenant_def insert_tenant_row_def Let_def split: if_splits)



lemma Model_save_tenant_flags:
  assumes "Model_save_tenant self db = (r, self1, db1)"
  shows "auto_create_schema self1 = auto_create_schema self
       \<and> schema_name self1 = schema_name self"
  using assms
  by (auto simp: Model_save_tenant_def insert_tenant_row_def update_tenant_row_def Let_def
      split: if_splits option.splits)




text \<open>
  C1. The creation of a tenant from the public schema whose \<open>create_schema\<close> fails,
  when the failure leaves the connection on the tenant's own schema or on the public
  one, and the tenant's schema is neither the one that holds the tenant table nor one
  the database refuses to drop: the save raises the error of \<open>create_schema\<close>, the
  instance is unsaved again, the row it inserted is gone and so is the physical schema.
  The connection stays on the schema where the failure left it; that is the public
  schema when the name is rejected.
\<close>

theorem Tenant_save_rollback:
  assumes new: "pk self = None" and auto: "auto_create_schema self"
      and pub: "connection_schema_name db = public_schema_name env"
      and ins: "Model_save_tenant self db = (Inr u, self1, db1)"
      and fail: "create_schema env self1 True True verbosity db1 = (Inl e, db2)"
      and ctx: "connection_schema_name db2 = schema_name self
                \<or> connection_schema_name db2 = public_schema_name env"
      and tables: "tables_schema db2 = Some ts" "ts \<noteq> physical_schema (schema_name self)"
      and free: "physical_schema (schema_name self) \<notin> undroppable_schemas db2"
  shows "\<exists>db3. Tenant_save env self verbosity db = (Inl e, self, db3)
           \<and> \<not> list_ex (\<lambda>r. tenant_id r = tenant_id_seq db) (tenant_table db3)
           \<and> physical_schema (schema_name self) \<notin> schemas db3
           \<and> connection_schema_name db3 = connection_schema_name db2
           \<and> (check_schema_name env (schema_name self)
                \<or> connection_schema_name db3 = public_schema_name env)"
proof -
  from Model_save_tenant_new [OF new ins]
  have s1: "self1 = self\<lparr>pk := Some (tenant_id_seq db)\<rparr>"
    and c1: "connection_schema_name db1 = connection_schema_name db" by simp_all
  have pk1: "pk self1 = Some (tenant_id_seq db)" and n1: "schema_name self1 = schema_name self"
    and a1: "auto_create_schema self1" using s1 auto by simp_all
  have undo: "self1\<lparr>pk := None\<rparr> = self" using s1 new by simp
  have ctx1: "connection_schema_name db2 = schema_name self1
                \<or> connection_schema_name db2 = public_schema_name env" using ctx n1 by simp
  have t1: "ts \<noteq> physical_schema (schema_name self1)"
    and f1: "physical_schema (schema_name self1) \<notin> undroppable_schemas db2"
    using tables(2) free n1 by simp_all
  from Tenant_delete_allowed [OF ctx1 pk1 tables(1) t1 f1, of True]
  obtain db3 where del: "Tenant_delete env self1 True db2 = (Inr (), self1\<lparr>pk := None\<rparr>, db3)"
    and row: "\<not> list_ex (\<lambda>r. tenant_id r = tenant_id_seq db) (tenant_table db3)"
    and conn: "connection_schema_name db3 = connection_schema_name db2"
    and sch: "(if schema_exists (schema_name self1) db2 \<and> (auto_drop_schema self1 \<or> True)
               then schemas db3 = schemas db2 - {physical_schema (schema_name self1)}
               else schemas db3 = schemas db2)"
    by (auto split: if_splits)
  have gone: "physical_schema (schema_name self) \<notin> schemas db3"
    using sch n1 by (auto simp: schema_exists_def split: if_splits)
  have cas: "create_and_send env self1 verbosity db1 = (Some e, db2)"
    using fail by (simp add: create_and_send_def)
  have res: "Tenant_save env self verbosity db = (Inl e, self, db3)"
    using new pub ins a1 cas del undo by (simp add: Tenant_save_def)
  have inv: "check_schema_name env (schema_name self)
                \<or> connection_schema_name db3 = public_schema_name env"
  proof (cases "check_schema_name env (schema_name self)")
    case True then show ?thesis by simp
  next
    case False
    then have "db2 = db1" using fail n1 by (simp add: create_schema_def)
    then show ?thesis using conn c1 pub by simp
  qed
  from res row gone conn inv show ?thesis by blast
qed

theorem Tenant_save_rollback_witness:
  "\<exists>db3. Tenant_save failing_env acme 1 public_db
            = (Inl (CollaboratorError ''migration failed''), acme, db3)
     \<and> \<not> list_ex (\<lambda>r. tenant_id r = 1) (tenant_table db3)
     \<and> ''acme'' \<notin> schemas db3
     \<and> connection_schema_name db3 = ''acme''"
proof -
  have new: "pk acme = None" and auto: "auto_create_schema acme"
    and nm: "schema_name acme = ''acme''"
    by (simp_all add: acme_def)
  have pub: "connection_schema_name public_db = public_schema_name failing_env"
    and sq: "tenant_id_seq public_db = 1"
    by (simp_all add: public_db_def failing_env_def)
  have ins: "Model_save_tenant acme public_db
               = (Inr (), acme\<lparr>pk := Some 1\<rparr>,
                  public_db\<lparr>tenant_id_seq := 2,
                            tenant_table := [\<lparr>tenant_id = 1, tenant_schema_name = ''acme'',
                                              tenant_name = ''Acme''\<rparr>],
                            executed := [INSERT_TENANT 1]\<rparr>)"
    by (simp add: Model_save_tenant_def insert_tenant_row_def row_of_tenant_def acme_def
          public_db_def)
  have fail: "create_schema failing_env (acme\<lparr>pk := Some 1\<rparr>) True True 1
                (public_db\<lparr>tenant_id_seq := 2,
                           tenant_table := [\<lparr>tenant_id = 1, tenant_schema_name = ''acme'',
                                             tenant_name = ''Acme''\<rparr>],
                           executed := [INSERT_TENANT 1]\<rparr>)
               = (Inl (CollaboratorError ''migration failed''),
                  public_db\<lparr>tenant_id_seq := 2,
                            tenant_table := [\<lparr>tenant_id = 1, tenant_schema_name = ''acme'',
                                              tenant_name = ''Acme''\<rparr>],
                            schemas := {''acme'', ''public'', ''pg_catalog''},
                            executed := [INSERT_TENANT 1, CREATE_SCHEMA ''acme''],
                            connection_schema_name := ''acme''\<rparr>)"
    by (simp add: create_schema_def execute_create_schema_def schema_exists_def physical_acme
          failing_env_def acme_def public_db_def)
  have ctx: "connection_schema_name
               (public_db\<lparr>tenant_id_seq := 2,
                          tenant_table := [\<lparr>tenant_id = 1, tenant_schema_name = ''acme'',
                                            tenant_name = ''Acme''\<rparr>],
                          schemas := {''acme'', ''public'', ''pg_catalog''},
                          executed := [INSERT_TENANT 1, CREATE_SCHEMA ''acme''],
                          connection_schema_name := ''acme''\<rparr>) = schema_name acme
             \<or> connection_schema_name
               (public_db\<lparr>tenant_id_seq := 2,
                          tenant_table := [\<lparr>tenant_id = 1, tenant_schema_name = ''acme'',
                                            tenant_name = ''Acme''\<rparr>],
                          schemas := {''acme'', ''public'', ''pg_catalog''},
                          executed := [INSERT_TENANT 1, CREATE_SCHEMA ''acme''],
                          connection_schema_name := ''acme''\<rparr>) = public_schema_name failing_env"
    by (simp add: acme_def)
  have tables: "tables_schema
               (public_db\<lparr>tenant_id_seq := 2,
                          tenant_table := [\<lparr>tenant_id = 1, tenant_schema_name = ''acme'',
                                            tenant_name = ''Acme''\<rparr>],
                          schemas := {''acme'', ''public'', ''pg_catalog''},
                          executed := [INSERT_TENANT 1, CREATE_SCHEMA ''acme''],
                          connection_schema_name := ''acme''\<rparr>) = Some ''public''"
    and other: "''public'' \<noteq> physical_schema (schema_name acme)"
    and free: "physical_schema (schema_name acme) \<notin> undroppable_schemas
               (public_db\<lparr>tenant_id_seq := 2,
                          tenant_table := [\<lparr>tenant_id = 1, tenant_schema_name = ''acme'',
                                            tenant_name = ''Acme''\<rparr>],
                          schemas := {''acme'', ''public'', ''pg_catalog''},
                          executed := [INSERT_TENANT 1, CREATE_SCHEMA ''acme''],
                          connection_schema_name := ''acme''\<rparr>)"
    by (simp_all add: physical_acme acme_def public_db_def)
  from Tenant_save_rollback [OF new auto pub ins fail ctx tables other free] nm sq
  show ?thesis by (auto simp: physical_acme)
qed

theorem Tenant_save_failed_migration_counterexample:
  "fst (Tenant_save failing_env acme 1 public_db) = Inl (CollaboratorError ''migration failed'')
   \<and> connection_schema_name (snd (snd (Tenant_save failing_env acme 1 public_db)))
       \<noteq> public_schema_name failing_env"
  by (simp add: Tenant_save_def Model_save_tenant_def insert_tenant_row_def row_of_tenant_def
        create_and_send_def create_schema_def execute_create_schema_def schema_exists_def
        physical_acme Tenant_delete_def execute_drop_schema_cascade_def Model_delete_tenant_def
        failing_env_def acme_def public_db_def)

text \<open>
  When the failure leaves the connection on a third schema, the delete of the
  \<open>except\<close> block is refused: its exception replaces the original one, and the row
  and the schema stay.
\<close>

lemma Tenant_save_rollback_refused:
  assumes new: "pk self = None" and auto: "auto_create_schema self"
      and pub: "connection_schema_name db = public_schema_name env"
      and ins: "Model_save_tenant self db = (Inr u, self1, db1)"
      and fail: "create_schema env self1 True True verbosity db1 = (Inl e, db2)"
      and ctx: "connection_schema_name db2 \<noteq> schema_name self"
               "connection_schema_name db2 \<noteq> public_schema_name env"
  shows "Tenant_save env self verbosity db
           = (Inl (CantDeleteOutsideOwn (connection_schema_name db2)), self1, db2)"
proof -
  have f: "auto_create_schema self1" "schema_name self1 = schema_name self"
    using Model_save_tenant_flags [OF ins] auto by simp_all
  have del: "Tenant_delete env self1 True db2
           = (Inl (CantDeleteOutsideOwn (connection_schema_name db2)), self1, db2)"
    using Tenant_delete_refused [of db2 self1 env True] ctx f by simp
  have cas: "create_and_send env self1 verbosity db1 = (Some e, db2)"
    using fail by (simp add: create_and_send_def)
  show ?thesis using new pub ins f cas del by (simp add: Tenant_save_def)
qed

text \<open>
  When the validator rejects the name of a schema that holds the tenant table, the
  delete of the \<open>except\<close> block drops that schema: the tables go with it, the delete of
  the row raises, and its error replaces the validator's. Here a new tenant is given
  the name of the public schema, which the validator keeps as reserved.
\<close>

lemma Tenant_save_rejected_public_name_example:
  "fst (Tenant_save strict_env (public_tenant\<lparr>pk := None\<rparr>) 1 public_db) = Inl ProgrammingError
   \<and> executed (snd (snd (Tenant_save strict_env (public_tenant\<lparr>pk := None\<rparr>) 1 public_db)))
       = [INSERT_TENANT 1, DROP_SCHEMA_CASCADE ''public'']
   \<and> tables_schema (snd (snd (Tenant_save strict_env (public_tenant\<lparr>pk := None\<rparr>) 1 public_db)))
       = None"
  by (simp add: Tenant_save_def Model_save_tenant_def insert_tenant_row_def row_of_tenant_def
        create_and_send_def create_schema_def schema_exists_def physical_public
        Tenant_delete_def execute_drop_schema_cascade_def Model_delete_tenant_def
        strict_env_def working_env_def public_tenant_def public_db_def)

section \<open>Domains\<close>

lemma lower_char_idem: "lower_char (lower_char c) = lower_char c"
  by (simp add: lower_char_def Let_def)

lemma lower_idem: "lower (lower s) = lower s"
  by (simp add: lower_def lower_char_idem)

lemma lower_example: "lower ''Example.COM'' = ''example.com''"
  by code_simp

lemma Domain_save_inserted:
  assumes "Domain_save \<lparr>domain_pk = None, domain_tenant = t, domain_domain = d\<rparr> db = (Inr u, obj, db')"
  shows "\<exists>tid. t = Some tid
           \<and> obj = \<lparr>domain_pk = Some (domain_id_seq db), domain_tenant = Some tid,
                     domain_domain = lower d\<rparr>
           \<and> domain_table db' = domain_table db
                @ [\<lparr>domain_id = domain_id_seq db, domain_tenant_id = tid, domain_name = lower d\<rparr>]
           \<and> tables_schema db' = tables_schema db"
  using assms
  by (auto simp: Domain_save_def Model_save_domain_def insert_domain_row_def Let_def
      split: option.splits if_splits)

lemma Domain_save_row:
  assumes "Domain_save obj db = (Inr u, obj', db')"
  shows "domain_domain obj' = lower (domain_domain obj)
       \<and> (\<exists>k t. domain_pk obj' = Some k \<and> domain_tenant obj = Some t
             \<and> \<lparr>domain_id = k, domain_tenant_id = t, domain_name = lower (domain_domain obj)\<rparr>
                 \<in> set (domain_table db'))"
  using assms
  by (auto simp: Domain_save_def Model_save_domain_def insert_domain_row_def update_domain_row_def
        Let_def list_ex_iff split: option.splits if_splits)

text \<open>
  A successful \<open>get_or_create\<close> with a lowercase domain leaves exactly one row of the
  tenant with this domain, and returns that row.
\<close>

lemma get_or_create_one_row:
  assumes run: "get_or_create self d db = (Inr (obj, created), db')" and low: "lower d = d"
  shows "\<exists>r. [r \<leftarrow> domain_table db'. Some (domain_tenant_id r) = pk self \<and> domain_name r = d] = [r]
           \<and> obj = domain_of_row r \<and> tables_schema db' \<noteq> None"
proof (cases "[r \<leftarrow> domain_table db. Some (domain_tenant_id r) = pk self \<and> domain_name r = d]")
  case Nil
  have tb0: "tables_schema db \<noteq> None"
    using run by (auto simp: get_or_create_def split: if_splits)
  obtain res o1 d1 where
    sv: "Domain_save \<lparr>domain_pk = None, domain_tenant = pk self, domain_domain = d\<rparr> db = (res, o1, d1)"
    by (metis prod_cases3)
  from run Nil sv tb0 obtain u where ok: "res = Inr u" and o: "o1 = obj" and d: "d1 = db'"
    by (cases res) (auto simp: get_or_create_def)
  from Domain_save_inserted [of "pk self" d db u obj db'] sv ok o d low
  obtain tid where t: "pk self = Some tid"
    and ob: "obj = \<lparr>domain_pk = Some (domain_id_seq db), domain_tenant = Some tid,
                     domain_domain = d\<rparr>"
    and tb: "domain_table db' = domain_table db
                @ [\<lparr>domain_id = domain_id_seq db, domain_tenant_id = tid, domain_name = d\<rparr>]"
    and ts: "tables_schema db' = tables_schema db"
    by auto
  have "[r \<leftarrow> domain_table db'. Some (domain_tenant_id r) = pk self \<and> domain_name r = d]
          = [\<lparr>domain_id = domain_id_seq db, domain_tenant_id = tid, domain_name = d\<rparr>]"
    using Nil tb t by simp
  moreover have "obj = domain_of_row \<lparr>domain_id = domain_id_seq db, domain_tenant_id = tid,
                                       domain_name = d\<rparr>"
    using ob by (simp add: domain_of_row_def)
  ultimately show ?thesis using ts tb0 by auto
next
  case (Cons r rs)
  with run have "rs = []" and "obj = domain_of_row r" and "db' = db"
    and "tables_schema db \<noteq> None"
    by (auto simp: get_or_create_def split: list.splits if_splits)
  with Cons show ?thesis by simp
qed

lemma get_or_create_found:
  assumes "[r \<leftarrow> domain_table db. Some (domain_tenant_id r) = pk self \<and> domain_name r = d] = [r]"
      and "tables_schema db \<noteq> None"
  shows "get_or_create self d db = (Inr (domain_of_row r, False), db)"
  using assms by (simp add: get_or_create_def)

lemma add_domain_one_row:
  assumes "add_domain self d db = (Inr obj, db')"
  shows "\<exists>r. [r \<leftarrow> domain_table db'. Some (domain_tenant_id r) = pk self \<and> domain_name r = lower d] = [r]
           \<and> obj = domain_of_row r \<and> tables_schema db' \<noteq> None"
proof -
  from assms obtain created where "get_or_create self (lower d) db = (Inr (obj, created), db')"
    by (auto simp: add_domain_def Let_def split: prod.splits sum.splits)
  from get_or_create_one_row [OF this lower_idem] show ?thesis .
qed

text \<open>
  C8. Both write paths store the lowercase form. A successful \<open>Domain.save\<close> lowers
  the field of the instance and writes a row whose domain is the lowercase form of the
  field. After a successful \<open>add_domain\<close>, the instance returned holds the lowercase
  form of the string, and \<open>get_domains\<close> of the tenant contains it.
\<close>

theorem domains_stored_lowercase:
  "(Domain_save obj db = (Inr u, obj', db') \<longrightarrow>
      domain_domain obj' = lower (domain_domain obj)
      \<and> (\<exists>k t. domain_pk obj' = Some k
            \<and> \<lparr>domain_id = k, domain_tenant_id = t, domain_name = lower (domain_domain obj)\<rparr>
                \<in> set (domain_table db')))
   \<and> (add_domain self d db2 = (Inr obj2, db2') \<longrightarrow>
      domain_domain obj2 = lower d
      \<and> (\<exists>ds. get_domains self db2' = Inr ds \<and> lower d \<in> set ds))"
proof (intro conjI impI)
  assume "Domain_save obj db = (Inr u, obj', db')"
  from Domain_save_row [OF this]
  show "domain_domain obj' = lower (domain_domain obj)"
    and "\<exists>k t. domain_pk obj' = Some k
            \<and> \<lparr>domain_id = k, domain_tenant_id = t, domain_name = lower (domain_domain obj)\<rparr>
                \<in> set (domain_table db')"
    by auto
next
  assume a: "add_domain self d db2 = (Inr obj2, db2')"
  from add_domain_one_row [OF a] obtain r where
    f: "[r \<leftarrow> domain_table db2'. Some (domain_tenant_id r) = pk self \<and> domain_name r = lower d] = [r]"
    and o: "obj2 = domain_of_row r" and tb: "tables_schema db2' \<noteq> None" by blast
  have "r \<in> set [r \<leftarrow> domain_table db2'. Some (domain_tenant_id r) = pk self \<and> domain_name r = lower d]"
    using f by simp
  then have r: "r \<in> set (domain_table db2')" "Some (domain_tenant_id r) = pk self"
    "domain_name r = lower d" by auto
  show "domain_domain obj2 = lower d" using o r by (simp add: domain_of_row_def)
  have "lower d \<in> set [domain_name r. r \<leftarrow> domain_table db2', Some (domain_tenant_id r) = pk self]"
    using r by force
  then show "\<exists>ds. get_domains self db2' = Inr ds \<and> lower d \<in> set ds"
    using tb by (simp add: get_domains_def)
qed

theorem domains_stored_lowercase_witness:
  "get_domains acme_saved (snd (add_domain acme_saved ''Example.COM'' acme_db))
     = Inr [''example.com'']
   \<and> domain_table (snd (snd (Domain_save
        \<lparr>domain_pk = None, domain_tenant = Some 1, domain_domain = ''Example.COM''\<rparr> acme_db)))
       = [\<lparr>domain_id = 1, domain_tenant_id = 1, domain_name = ''example.com''\<rparr>]"
proof -
  have run: "add_domain acme_saved ''Example.COM'' acme_db
               = (Inr \<lparr>domain_pk = Some 1, domain_tenant = Some 1, domain_domain = ''example.com''\<rparr>,
                  acme_db\<lparr>domain_id_seq := 2,
                          domain_table := [\<lparr>domain_id = 1, domain_tenant_id = 1,
                                            domain_name = ''example.com''\<rparr>],
                          executed := [INSERT_DOMAIN 1]\<rparr>)"
    by (simp add: Let_def add_domain_def get_or_create_def Domain_save_def Model_save_domain_def
          insert_domain_row_def lower_example lower_idem [of "''Example.COM''", unfolded lower_example]
          acme_saved_def acme_def acme_db_def)
  have sv: "Domain_save \<lparr>domain_pk = None, domain_tenant = Some 1, domain_domain = ''Example.COM''\<rparr>
              acme_db
            = (Inr (), \<lparr>domain_pk = Some 1, domain_tenant = Some 1, domain_domain = ''example.com''\<rparr>,
                  acme_db\<lparr>domain_id_seq := 2,
                          domain_table := [\<lparr>domain_id = 1, domain_tenant_id = 1,
                                            domain_name = ''example.com''\<rparr>],
                          executed := [INSERT_DOMAIN 1]\<rparr>)"
    by (simp add: Domain_save_def Model_save_domain_def insert_domain_row_def lower_example
          acme_db_def)
  from domains_stored_lowercase
         [of "\<lparr>domain_pk = None, domain_tenant = Some 1, domain_domain = ''Example.COM''\<rparr>"
             acme_db "()"
             "\<lparr>domain_pk = Some 1, domain_tenant = Some 1, domain_domain = ''example.com''\<rparr>"
             "acme_db\<lparr>domain_id_seq := 2,
                     domain_table := [\<lparr>domain_id = 1, domain_tenant_id = 1,
                                       domain_name = ''example.com''\<rparr>],
                     executed := [INSERT_DOMAIN 1]\<rparr>"
             acme_saved "''Example.COM''" acme_db
             "\<lparr>domain_pk = Some 1, domain_tenant = Some 1, domain_domain = ''example.com''\<rparr>"
             "acme_db\<lparr>domain_id_seq := 2,
                     domain_table := [\<lparr>domain_id = 1, domain_tenant_id = 1,
                                       domain_name = ''example.com''\<rparr>],
                     executed := [INSERT_DOMAIN 1]\<rparr>"] run sv
  show ?thesis
    by (simp add: lower_example get_domains_def acme_saved_def acme_def acme_db_def)
qed

text \<open>
  C10. After a successful \<open>add_domain\<close>, a second call with any string of the same
  lowercase form returns the same instance and leaves the database as it is, and the
  tenant has exactly one row with this domain.
\<close>

theorem add_domain_idempotent:
  assumes first: "add_domain self d1 db = (Inr obj, db1)" and same: "lower d2 = lower d1"
  shows "add_domain self d2 db1 = (Inr obj, db1)
       \<and> length [r \<leftarrow> domain_table db1.
                   Some (domain_tenant_id r) = pk self \<and> domain_name r = lower d1] = 1"
proof -
  from add_domain_one_row [OF first] obtain r where
    f: "[r \<leftarrow> domain_table db1. Some (domain_tenant_id r) = pk self \<and> domain_name r = lower d1] = [r]"
    and o: "obj = domain_of_row r" and tb: "tables_schema db1 \<noteq> None" by blast
  from get_or_create_found [OF f tb]
  have "get_or_create self (lower d2) db1 = (Inr (obj, False), db1)"
    using o same by simp
  then have "add_domain self d2 db1 = (Inr obj, db1)"
    by (simp add: add_domain_def)
  then show ?thesis using f by simp
qed

theorem add_domain_idempotent_witness:
  "add_domain acme_saved ''EXAMPLE.com''
     (snd (add_domain acme_saved ''Example.COM'' acme_db))
     = add_domain acme_saved ''Example.COM'' acme_db
   \<and> domain_table (snd (add_domain acme_saved ''Example.COM'' acme_db))
       = [\<lparr>domain_id = 1, domain_tenant_id = 1, domain_name = ''example.com''\<rparr>]"
proof -
  have l2: "lower ''EXAMPLE.com'' = ''example.com''" by code_simp
  have run: "add_domain acme_saved ''Example.COM'' acme_db
               = (Inr \<lparr>domain_pk = Some 1, domain_tenant = Some 1, domain_domain = ''example.com''\<rparr>,
                  acme_db\<lparr>domain_id_seq := 2,
                          domain_table := [\<lparr>domain_id = 1, domain_tenant_id = 1,
                                            domain_name = ''example.com''\<rparr>],
                          executed := [INSERT_DOMAIN 1]\<rparr>)"
    by (simp add: Let_def add_domain_def get_or_create_def Domain_save_def Model_save_domain_def
          insert_domain_row_def lower_example lower_idem [of "''Example.COM''", unfolded lower_example]
          acme_saved_def acme_def acme_db_def)
  have same: "lower ''EXAMPLE.com'' = lower ''Example.COM''"
    by (simp add: l2 lower_example)
  from add_domain_idempotent [OF run same] run
  show ?thesis by (simp add: acme_db_def)
qed

section \<open>get\_constraints: the three passes\<close>

lemma same_flags_refl: "same_flags a a"
  by (simp add: same_flags_def)

lemma same_flags_trans: "same_flags a b \<Longrightarrow> same_flags b c \<Longrightarrow> same_flags a c"
  by (simp add: same_flags_def)

lemma append_column_entry:
  assumes "append_column cs c col n = Some ci"
  shows "\<exists>c0. cs n = Some c0 \<and> same_flags c0 ci"
  using assms by (auto simp: append_column_def same_flags_def split: option.splits if_splits)

text \<open>
  An entry of the dictionary after the first loop is an entry it had before, or the
  record made from one of the rows of its name; the loop changes the columns only.
\<close>

lemma key_pass_entry:
  assumes "key_pass rows cs = Inr res" and "res n = Some ci"
  shows "(\<exists>c0. cs n = Some c0 \<and> same_flags c0 ci)
       \<or> (\<exists>col kind used rec. (n, col, kind, used) \<in> set rows \<and> key_record kind used = Inr rec
             \<and> same_flags rec ci)"
  using assms
proof (induction rows arbitrary: cs)
  case Nil
  then show ?case by (simp add: same_flags_refl)
next
  case (Cons row rows)
  obtain c col kind used where row: "row = (c, col, kind, used)" by (cases row) auto
  show ?case
  proof (cases "cs c")
    case (Some c1)
    with Cons.prems row have run: "key_pass rows (append_column cs c col) = Inr res" by simp
    from Cons.IH [OF run Cons.prems(2)] show ?thesis
    proof
      assume "\<exists>c0. append_column cs c col n = Some c0 \<and> same_flags c0 ci"
      then obtain c0 where a: "append_column cs c col n = Some c0"
        and b: "same_flags c0 ci" by blast
      from append_column_entry [OF a] obtain c2 where "cs n = Some c2"
        and "same_flags c2 c0" by blast
      with b have "cs n = Some c2 \<and> same_flags c2 ci"
        using same_flags_trans by blast
      then show ?thesis by blast
    next
      assume "\<exists>col kind used rec. (n, col, kind, used) \<in> set rows \<and> key_record kind used = Inr rec
                \<and> same_flags rec ci"
      then obtain col' kind' used' rec' where "(n, col', kind', used') \<in> set rows"
        and r: "key_record kind' used' = Inr rec'" "same_flags rec' ci" by blast
      then have "(n, col', kind', used') \<in> set (row # rows)" by simp
      with r show ?thesis by blast
    qed
  next
    case None
    with Cons.prems row obtain rec where rec: "key_record kind used = Inr rec"
      and run: "key_pass rows (append_column (cs(c \<mapsto> rec)) c col) = Inr res"
      by (auto split: sum.splits)
    from Cons.IH [OF run Cons.prems(2)] show ?thesis
    proof
      assume "\<exists>c0. append_column (cs(c \<mapsto> rec)) c col n = Some c0 \<and> same_flags c0 ci"
      then obtain c0 where a: "append_column (cs(c \<mapsto> rec)) c col n = Some c0"
        and b: "same_flags c0 ci" by blast
      from append_column_entry [OF a] obtain c2 where c2: "(cs(c \<mapsto> rec)) n = Some c2"
        and "same_flags c2 c0" by blast
      with b have e: "same_flags c2 ci"
        using same_flags_trans by blast
      show ?thesis
      proof (cases "n = c")
        case True
        with c2 have "c2 = rec" by simp
        with e have "same_flags rec ci" by simp
        moreover have "(n, col, kind, used) \<in> set (row # rows)" using True row by simp
        ultimately show ?thesis using rec by blast
      next
        case False
        with c2 have "cs n = Some c2" by simp
        with e show ?thesis by blast
      qed
    next
      assume "\<exists>col kind used rec. (n, col, kind, used) \<in> set rows \<and> key_record kind used = Inr rec
                \<and> same_flags rec ci"
      then obtain col' kind' used' rec' where "(n, col', kind', used') \<in> set rows"
        and r: "key_record kind' used' = Inr rec'" "same_flags rec' ci" by blast
      then have "(n, col', kind', used') \<in> set (row # rows)" by simp
      with r show ?thesis by blast
    qed
  qed
qed

lemma check_pass_entry:
  assumes "check_pass rows cs n = Some ci"
  shows "(\<exists>c0. cs n = Some c0 \<and> same_flags c0 ci) \<or> same_flags check_record ci"
  using assms
proof (induction rows arbitrary: cs)
  case Nil
  then show ?case by (simp add: same_flags_refl)
next
  case (Cons row rows)
  obtain c col where row: "row = (c, col)" by (cases row) auto
  define cs1 where "cs1 = (case cs c of Some c1 \<Rightarrow> cs | None \<Rightarrow> cs(c \<mapsto> check_record))"
  have run: "check_pass rows (append_column cs1 c col) n = Some ci"
    using Cons.prems row by (auto simp: cs1_def split: option.splits)
  from Cons.IH [OF run] show ?case
  proof
    assume "\<exists>c0. append_column cs1 c col n = Some c0 \<and> same_flags c0 ci"
    then obtain c0 where a: "append_column cs1 c col n = Some c0"
      and b: "same_flags c0 ci" by blast
    from append_column_entry [OF a] obtain c2 where c2: "cs1 n = Some c2"
      and "same_flags c2 c0" by blast
    with b have e: "same_flags c2 ci"
      using same_flags_trans by blast
    from c2 have "cs n = Some c2 \<or> c2 = check_record"
      by (auto simp: cs1_def split: option.splits if_splits)
    with e show ?thesis by auto
  next
    assume "same_flags check_record ci"
    then show ?thesis by simp
  qed
qed

text \<open>
  The third loop, as a function of the name: a recorded name keeps its entry; a name
  that is not recorded takes the record of the first index of that name, if there is one.
\<close>

lemma index_pass_lookup:
  "index_pass rows cs n =
     (case cs n of
        Some ci \<Rightarrow> Some ci
      | None \<Rightarrow>
          map_option (\<lambda>(i, cols, uniq, primary). index_record cols uniq primary)
            (find (\<lambda>row. fst row = n) rows))"
proof (induction rows arbitrary: cs)
  case Nil
  then show ?case by (simp split: option.splits)
next
  case (Cons row rows)
  obtain i cols uniq primary where row: "row = (i, cols, uniq, primary)" by (cases row) auto
  show ?case
    by (cases "cs i") (auto simp: row Cons.IH split: option.splits)
qed

lemma get_constraints_from_before:
  "get_constraints s t cat =
     (case constraints_before_indexes s t cat of
        Inl e \<Rightarrow> Inl e
      | Inr cs \<Rightarrow> Inr (index_pass (index_query t cat) cs))"
  by (simp add: get_constraints_def constraints_before_indexes_def split: sum.splits)

lemma before_indexes_entry:
  assumes "constraints_before_indexes s t cat = Inr cs" and "cs n = Some ci"
  shows "same_flags check_record ci
       \<or> (\<exists>col kind used rec. (n, col, kind, used) \<in> set (key_query s t cat)
             \<and> key_record kind used = Inr rec \<and> same_flags rec ci)"
proof -
  from assms(1) obtain cs1 where k: "key_pass (key_query s t cat) Map.empty = Inr cs1"
    and c: "cs = check_pass (check_query s t cat) cs1"
    by (auto simp: constraints_before_indexes_def split: sum.splits)
  from check_pass_entry [of "check_query s t cat" cs1 n ci] assms(2) c
  have "(\<exists>c0. cs1 n = Some c0 \<and> same_flags c0 ci) \<or> same_flags check_record ci" by simp
  then show ?thesis
  proof
    assume "\<exists>c0. cs1 n = Some c0 \<and> same_flags c0 ci"
    then obtain c0 where c0: "cs1 n = Some c0" and e: "same_flags c0 ci" by blast
    from key_pass_entry [OF k c0]
    obtain col kind used rec where "(n, col, kind, used) \<in> set (key_query s t cat)"
      and "key_record kind used = Inr rec" and "same_flags rec c0"
      by auto
    with e have "(n, col, kind, used) \<in> set (key_query s t cat) \<and> key_record kind used = Inr rec
        \<and> same_flags rec ci"
      using same_flags_trans by blast
    then show ?thesis by blast
  next
    assume "same_flags check_record ci"
    then show ?thesis by simp
  qed
qed

lemma key_record_index:
  assumes "key_record kind used = Inr rec"
  shows "\<not> index rec"
  using assms by (auto simp: key_record_def split: if_splits list.splits)

lemma before_indexes_no_index:
  assumes "constraints_before_indexes s t cat = Inr cs" and "cs n = Some ci"
  shows "\<not> index ci"
proof -
  from before_indexes_entry [OF assms] show ?thesis
  proof
    assume "same_flags check_record ci"
    then show ?thesis by (simp add: same_flags_def check_record_def)
  next
    assume "\<exists>col kind used rec. (n, col, kind, used) \<in> set (key_query s t cat)
             \<and> key_record kind used = Inr rec \<and> same_flags rec ci"
    then obtain kind used rec where r: "key_record kind used = Inr rec"
      and e: "same_flags rec ci" by blast
    with key_record_index [OF r] show ?thesis by (simp add: same_flags_def)
  qed
qed

text \<open>
  C6. In the loop over the indexes, an index whose name is recorded by one of the two
  loops before it is skipped: the entry of that name stays as it was, and its flag
  \<open>index\<close> is false, as on every entry of those loops. An index of a name that is not
  recorded is added as a new entry, with the flag \<open>index\<close> true.
\<close>

theorem index_pass_first_seen_wins:
  assumes "constraints_before_indexes s t cat = Inr cs"
  shows "\<exists>res. get_constraints s t cat = Inr res
           \<and> (\<forall>n. res n =
                 (case cs n of
                    Some ci \<Rightarrow> Some ci
                  | None \<Rightarrow>
                      map_option (\<lambda>(i, cols, uniq, primary). index_record cols uniq primary)
                        (find (\<lambda>row. fst row = n) (index_query t cat))))
           \<and> (\<forall>n ci. cs n = Some ci \<longrightarrow> \<not> index ci)
           \<and> (\<forall>cols uniq primary. index (index_record cols uniq primary))"
proof -
  have "get_constraints s t cat = Inr (index_pass (index_query t cat) cs)"
    using assms by (simp add: get_constraints_from_before)
  moreover have "\<forall>n ci. cs n = Some ci \<longrightarrow> \<not> index ci"
    using before_indexes_no_index [OF assms] by blast
  moreover have "\<forall>cols uniq primary. index (index_record cols uniq primary)"
    by (simp add: index_record_def)
  ultimately show ?thesis
    by (simp add: index_pass_lookup)
qed

lemma lower_primary_key: "lower ''PRIMARY KEY'' = ''primary key''"
  by code_simp


lemma pkey_catalog_before_indexes:
  "constraints_before_indexes ''a'' ''t'' pkey_catalog
     = Inr [''t_pkey'' \<mapsto> \<lparr>columns = [Some ''id''], primary_key = True, unique = True,
                              foreign_key = None, check = False, index = False\<rparr>]"
  by (simp add: constraints_before_indexes_def key_query_def check_query_def used_cols_of_def
        key_record_def append_column_def lower_primary_key pkey_catalog_def)

lemma pkey_catalog_index_query:
  "index_query ''t'' pkey_catalog
     = [(''t_pkey'', [Some ''id''], True, True), (''t_name_idx'', [Some ''name''], False, False)]"
  by (simp add: index_query_def attname_of_def pkey_catalog_def)

theorem index_pass_first_seen_wins_witness:
  "constraint_of (get_constraints ''a'' ''t'' pkey_catalog) ''t_name_idx''
     = Some \<lparr>columns = [Some ''name''], primary_key = False, unique = False,
              foreign_key = None, check = False, index = True\<rparr>
   \<and> constraint_of (get_constraints ''a'' ''t'' pkey_catalog) ''other'' = None"
proof -
  from index_pass_first_seen_wins [OF pkey_catalog_before_indexes]
  show ?thesis
    by (auto simp: constraint_of_def pkey_catalog_index_query index_record_def)
qed

theorem index_pass_skips_recorded_counterexample:
  "constraint_of (get_constraints ''a'' ''t'' pkey_catalog) ''t_pkey''
     = Some \<lparr>columns = [Some ''id''], primary_key = True, unique = True,
              foreign_key = None, check = False, index = False\<rparr>
   \<and> index_query ''t'' pkey_catalog
     = [(''t_pkey'', [Some ''id''], True, True), (''t_name_idx'', [Some ''name''], False, False)]"
  by (simp add: constraint_of_def get_constraints_from_before pkey_catalog_before_indexes
        pkey_catalog_index_query)

section \<open>get\_constraints: foreign keys\<close>













section \<open>The scope of the introspection\<close>

lemma own_schema_is_visible:
  assumes "c \<in> set classes" and "nspname c = s"
  shows "pg_table_is_visible (search_path public s) classes c"
proof -
  have "list_ex (\<lambda>c'. nspname c' = s \<and> relname c' = relname c) classes"
    using assms by (auto simp: list_ex_iff)
  then show ?thesis using assms(2)
    by (auto simp: pg_table_is_visible_def search_path_def)
qed

lemma table_list_of_rows:
  assumes "set xs \<subseteq> set classes"
  shows "[\<lparr>ti_name = relname c, ti_type = table_type (relkind c)\<rparr>.
            c \<leftarrow> xs,
            relkind c \<in> {''r'', ''v'', []} \<and> nspname c = s
              \<and> pg_table_is_visible (search_path public s) classes c,
            relname c \<notin> set ignored]
         = map (\<lambda>c. \<lparr>ti_name = relname c, ti_type = table_type (relkind c)\<rparr>)
             [c \<leftarrow> [c \<leftarrow> xs. nspname c = s].
                relkind c \<in> {''r'', ''v'', []} \<and> relname c \<notin> set ignored]"
  using assms
proof (induction xs)
  case Nil
  then show ?case by simp
next
  case (Cons x xs)
  then have "x \<in> set classes" and "set xs \<subseteq> set classes" by simp_all
  with Cons.IH own_schema_is_visible [of x classes s public] show ?case by auto
qed

text \<open>
  \<open>get_table_list\<close> reads the relations of the connection's schema only: two catalogs
  with the same relations in that schema give the same list.
\<close>

lemma get_table_list_scoped:
  assumes "in_schema s cat1 = in_schema s cat2"
  shows "get_table_list ignored public s cat1 = get_table_list ignored public s cat2"
proof -
  have "[c \<leftarrow> pg_class cat1. nspname c = s] = pg_class (in_schema s cat1)"
    and "[c \<leftarrow> pg_class cat2. nspname c = s] = pg_class (in_schema s cat2)"
    by (simp_all add: in_schema_def)
  with assms have "[c \<leftarrow> pg_class cat1. nspname c = s] = [c \<leftarrow> pg_class cat2. nspname c = s]"
    by simp
  then show ?thesis
    unfolding get_table_list_def
    using table_list_of_rows [of "pg_class cat1" "pg_class cat1" s public ignored]
      table_list_of_rows [of "pg_class cat2" "pg_class cat2" s public ignored]
    by simp
qed

text \<open>
  C7. \<open>get_constraints\<close> reads indexes of other schemas. The two catalogs have the
  same objects in schema \<open>a\<close>; the second has, in schema \<open>b\<close>, another table \<open>t\<close> with
  an index. On a connection whose schema is \<open>a\<close>, the constraints of \<open>t\<close> contain the
  index of schema \<open>b\<close> on the second catalog, and not on the first.
\<close>

theorem get_constraints_reads_other_schema:
  "in_schema ''a'' two_schema_catalog = in_schema ''a'' pkey_catalog
   \<and> constraint_of (get_constraints ''a'' ''t'' two_schema_catalog) ''t_b_idx''
       = Some \<lparr>columns = [Some ''secret''], primary_key = False, unique = False,
                foreign_key = None, check = False, index = True\<rparr>
   \<and> constraint_of (get_constraints ''a'' ''t'' pkey_catalog) ''t_b_idx'' = None"
proof -
  have same: "in_schema ''a'' two_schema_catalog = in_schema ''a'' pkey_catalog"
    by (simp add: in_schema_def relation_in_schema_def two_schema_catalog_def pkey_catalog_def)
  have b2: "constraints_before_indexes ''a'' ''t'' two_schema_catalog
     = Inr [''t_pkey'' \<mapsto> \<lparr>columns = [Some ''id''], primary_key = True, unique = True,
                              foreign_key = None, check = False, index = False\<rparr>]"
    by (simp add: constraints_before_indexes_def key_query_def check_query_def used_cols_of_def
        key_record_def append_column_def lower_primary_key two_schema_catalog_def
        pkey_catalog_def)
  have i2: "index_query ''t'' two_schema_catalog
     = [(''t_pkey'', [Some ''id''], True, True), (''t_name_idx'', [Some ''name''], False, False),
        (''t_b_idx'', [Some ''secret''], False, False)]"
    by (simp add: index_query_def attname_of_def two_schema_catalog_def pkey_catalog_def)
  have two: "constraint_of (get_constraints ''a'' ''t'' two_schema_catalog) ''t_b_idx''
       = Some \<lparr>columns = [Some ''secret''], primary_key = False, unique = False,
                foreign_key = None, check = False, index = True\<rparr>"
    by (simp add: constraint_of_def get_constraints_from_before b2 i2 index_record_def)
  have one: "constraint_of (get_constraints ''a'' ''t'' pkey_catalog) ''t_b_idx'' = None"
    by (simp add: constraint_of_def get_constraints_from_before pkey_catalog_before_indexes
          pkey_catalog_index_query)
  from same two one show ?thesis by simp
qed

end
